theory Spec2Isabelle
  imports Main "HOL-Library.Word" "HOL-Library.Sublist"
begin

section \<open>JavaScript strings\<close>

text \<open>
  A JavaScript string is a sequence of UTF-16 code units; \<open>length\<close>, \<open>substring\<close>,
  \<open>trim\<close> and the regular expression of \<open>handleDownload\<close> all work on code units.
  \<open>js\<close> writes an ASCII literal as such a sequence.
\<close>

type_synonym code_unit = "16 word"
type_synonym jsstring = "code_unit list"

definition js :: "string \<Rightarrow> jsstring" where
  "js s = map (\<lambda>c. of_nat (of_char c)) s"

text \<open>
  \<open>String.prototype.trim\<close> removes leading and trailing WhiteSpace and LineTerminator
  code units (ECMAScript 2015 and later): TAB, LF, VT, FF, CR, SPACE, NBSP, the other
  space separators U+1680, U+2000..U+200A, U+202F, U+205F, U+3000, the separators
  U+2028 and U+2029, and U+FEFF.
\<close>

definition isWhiteSpace :: "code_unit \<Rightarrow> bool" where
  "isWhiteSpace c \<longleftrightarrow>
     c \<in> {0x9, 0xA, 0xB, 0xC, 0xD, 0x20, 0xA0, 0x1680, 0x2028, 0x2029, 0x202F, 0x205F,
          0x3000, 0xFEFF}
     \<or> (0x2000 \<le> c \<and> c \<le> 0x200A)"

definition trim :: "jsstring \<Rightarrow> jsstring" where
  "trim s = rev (dropWhile isWhiteSpace (rev (dropWhile isWhiteSpace s)))"

text \<open>
  \<open>String.prototype.toLowerCase\<close>. On a string whose code units are all in
  U+0000..U+00FF (\<open>latin1\<close>) the built-in works unit by unit: the letters A..Z and the
  Latin-1 capitals U+00C0..U+00DE (without the multiplication sign U+00D7) move up by
  0x20, and every other code unit of that range is its own lower case
  (\<open>lowerLatin1\<close>). On any other string the built-in follows the Unicode case tables of
  the JavaScript engine (full case mappings such as U+0130 to \<open>i\<close> U+0307 and U+212A to
  \<open>k\<close>, surrogate pairs, the final sigma); these tables are not part of the repository,
  so that part of the built-in is the parameter \<open>unicodeLower\<close>, and every statement
  below holds for whatever it is.
\<close>

definition latin1 :: "jsstring \<Rightarrow> bool" where
  "latin1 s \<longleftrightarrow> list_all (\<lambda>c. c \<le> 0xFF) s"

definition lowerLatin1 :: "code_unit \<Rightarrow> code_unit" where
  "lowerLatin1 c =
     (if 0x41 \<le> c \<and> c \<le> 0x5A then c + 0x20
      else if 0xC0 \<le> c \<and> c \<le> 0xDE \<and> c \<noteq> 0xD7 then c + 0x20
      else c)"

definition toLowerCase :: "(jsstring \<Rightarrow> jsstring) \<Rightarrow> jsstring \<Rightarrow> jsstring" where
  "toLowerCase unicodeLower s = (if latin1 s then map lowerLatin1 s else unicodeLower s)"

text \<open>The character class \<open>[a-z0-9_]\<close> of the regular expression in \<open>handleDownload\<close>.\<close>

definition wordUnit :: "code_unit \<Rightarrow> bool" where
  "wordUnit c \<longleftrightarrow> (0x61 \<le> c \<and> c \<le> 0x7A) \<or> (0x30 \<le> c \<and> c \<le> 0x39) \<or> c = 0x5F"

text \<open>
  \<open>s.replace(/[^a-z0-9_]+/g, '_')\<close>: a left-to-right scan; the greedy \<open>+\<close> makes every match
  a maximal run of code units outside the class, and each match is replaced by one
  underscore. The flag says whether the scan is inside a match.
\<close>

fun replaceRuns :: "bool \<Rightarrow> jsstring \<Rightarrow> jsstring" where
  "replaceRuns inRun [] = []"
| "replaceRuns inRun (c # cs) =
     (if wordUnit c then c # replaceRuns False cs
      else if inRun then replaceRuns True cs
      else 0x5F # replaceRuns True cs)"

definition replace_nonword :: "jsstring \<Rightarrow> jsstring" where
  "replace_nonword s = replaceRuns False s"

text \<open>\<open>s.substring(0, 50)\<close>: the first 50 code units, all of \<open>s\<close> when it is shorter.\<close>

definition substring_0_50 :: "jsstring \<Rightarrow> jsstring" where
  "substring_0_50 s = take 50 s"

text \<open>\<open>a || b\<close> on strings: the empty string is the only falsy string.\<close>

definition or_else :: "jsstring \<Rightarrow> jsstring \<Rightarrow> jsstring" where
  "or_else a b = (if a = [] then b else a)"

section \<open>The download name (\<open>handleDownload\<close>, App.tsx)\<close>

text \<open>The first argument is the engine's case mapping, as for \<open>toLowerCase\<close>.\<close>

definition filename :: "(jsstring \<Rightarrow> jsstring) \<Rightarrow> jsstring \<Rightarrow> jsstring" where
  "filename unicodeLower prompt =
     or_else (substring_0_50 (replace_nonword (toLowerCase unicodeLower (trim prompt))))
             (js ''generated_image'')"

definition download_name :: "(jsstring \<Rightarrow> jsstring) \<Rightarrow> jsstring \<Rightarrow> jsstring" where
  "download_name unicodeLower prompt = filename unicodeLower prompt @ js ''.png''"

text \<open>
  The specification's wording of the sanitising step, for comparison: every run of
  code units that are neither alphanumeric nor an underscore becomes one underscore.
\<close>

function spec_collapse :: "jsstring \<Rightarrow> jsstring" where
  "spec_collapse [] = []"
| "spec_collapse (c # cs) =
     (if wordUnit c then c # spec_collapse cs
      else 0x5F # spec_collapse (dropWhile (\<lambda>d. \<not> wordUnit d) cs))"
  by pat_completeness auto
termination
  by (relation "measure length") (auto simp: length_dropWhile_le less_Suc_eq_le)

section \<open>The provider's data (\<open>@google/genai\<close>)\<close>

text \<open>
  The provider's client library is not part of the repository. Its response is read by
  \<open>response.candidates?.[0]?.content?.parts || []\<close>, so each level may be missing; a part
  may carry text, inline data, both or neither. The service returns
  \<open>part.inlineData.data\<close> as a \<open>string\<close>. The field \<open>partText\<close> is the part's
  \<open>text\<close>.
\<close>

record inline_data =
  mimeType :: jsstring
  data :: jsstring

record part =
  partText :: "jsstring option"
  inlineData :: "inline_data option"

record content =
  parts :: "part list option"

record candidate =
  content :: "content option"

record response =
  candidates :: "candidate list option"

datatype modality = MODALITY_UNSPECIFIED | TEXT | IMAGE | AUDIO

text \<open>The argument of \<open>ai.models.generateContent\<close>: model, the texts of \<open>contents.parts\<close>,
  and \<open>config.responseModalities\<close>.\<close>

record request =
  model :: jsstring
  contents :: "jsstring list"
  responseModalities :: "modality list"

text \<open>
  A thrown JavaScript value: an \<open>Error\<close> object with its message, or any value for which
  \<open>instanceof Error\<close> is false (a thrown string, say).
\<close>

datatype thrown = Error (message: jsstring) | NonError jsstring

text \<open>The provider's promise settles: it resolves with a response or rejects.\<close>

datatype outcome = Resolved response | Rejected thrown

section \<open>The Image Request Service (services/geminiService.ts)\<close>

subsection \<open>Module initialisation\<close>

record environment =
  API_KEY :: "jsstring option"

record GoogleGenAI =
  apiKey :: jsstring

definition API_KEY_MISSING :: jsstring where
  "API_KEY_MISSING = js ''API_KEY environment variable is not set.''"

text \<open>
  \<open>if (!process.env.API_KEY) throw ...; const ai = new GoogleGenAI({apiKey: ...})\<close>, run once
  when the module is loaded. \<open>!x\<close> holds of \<open>undefined\<close> and of the empty string.
\<close>

definition module_init :: "environment \<Rightarrow> thrown + GoogleGenAI" where
  "module_init env =
     (case API_KEY env of
        None \<Rightarrow> Inl (Error API_KEY_MISSING)
      | Some k \<Rightarrow> if k = [] then Inl (Error API_KEY_MISSING) else Inr \<lparr>apiKey = k\<rparr>)"

subsection \<open>\<open>generateMonochromeImage\<close>\<close>

text \<open>
  The style constraint appended to every prompt:
  \<open>, promptu sadece arkaplan siyah olacak [U+015F]ekilde sadece beyaz renk kullanarak
  [U+00E7]izecek\<close> (83 code units).
\<close>

definition STYLE_SUFFIX :: jsstring where
  "STYLE_SUFFIX =
     js '', promptu sadece arkaplan siyah olacak '' @ [0x15F] @
     js ''ekilde sadece beyaz renk kullanarak '' @ [0xE7] @ js ''izecek''"

definition fullPrompt :: "jsstring \<Rightarrow> jsstring" where
  "fullPrompt prompt = prompt @ STYLE_SUFFIX"

text \<open>A call of the provider: the client it goes through and the request.\<close>

record provider_call =
  client :: GoogleGenAI
  args :: request

text \<open>The part of \<open>generateMonochromeImage\<close> before its \<open>await\<close>: the one provider call.\<close>

definition generateMonochromeImage_call :: "GoogleGenAI \<Rightarrow> jsstring \<Rightarrow> provider_call" where
  "generateMonochromeImage_call ai prompt =
     \<lparr>client = ai,
      args = \<lparr>model = js ''gemini-2.5-flash-image'',
              contents = [fullPrompt prompt],
              responseModalities = [IMAGE]\<rparr>\<rparr>"

text \<open>\<open>response.candidates?.[0]?.content?.parts || []\<close>\<close>

definition response_parts :: "response \<Rightarrow> part list" where
  "response_parts r =
     (case candidates r of
        None \<Rightarrow> []
      | Some [] \<Rightarrow> []
      | Some (c # _) \<Rightarrow>
          (case content c of
             None \<Rightarrow> []
           | Some ct \<Rightarrow> (case parts ct of None \<Rightarrow> [] | Some ps \<Rightarrow> ps)))"

text \<open>The \<open>for\<close> loop: return at the first part whose \<open>inlineData\<close> is present.\<close>

fun scan_parts :: "part list \<Rightarrow> jsstring option" where
  "scan_parts [] = None"
| "scan_parts (p # ps) =
     (case inlineData p of Some b \<Rightarrow> Some (data b) | None \<Rightarrow> scan_parts ps)"

definition NO_IMAGE_DATA :: jsstring where
  "NO_IMAGE_DATA = js ''No image data found in the API response.''"

text \<open>The \<open>try\<close> block after the \<open>await\<close>: a rejection is thrown on; a response is scanned, and
  the \<open>throw\<close> after the loop is inside the block.\<close>

definition try_block :: "outcome \<Rightarrow> thrown + jsstring" where
  "try_block out =
     (case out of
        Rejected e \<Rightarrow> Inl e
      | Resolved r \<Rightarrow>
          (case scan_parts (response_parts r) of
             Some d \<Rightarrow> Inr d
           | None \<Rightarrow> Inl (Error NO_IMAGE_DATA)))"

text \<open>The \<open>catch\<close> block: what it throws, for what it caught.\<close>

definition catch_block :: "thrown \<Rightarrow> thrown" where
  "catch_block e =
     (case e of
        Error m \<Rightarrow> Error (js ''Failed to generate image: '' @ m)
      | NonError _ \<Rightarrow> Error (js ''An unknown error occurred while generating the image.''))"

text \<open>The part of \<open>generateMonochromeImage\<close> after its \<open>await\<close>: \<open>Inl\<close> is the rejection of
  the returned promise, \<open>Inr\<close> its value.\<close>

definition generateMonochromeImage_settle :: "outcome \<Rightarrow> thrown + jsstring" where
  "generateMonochromeImage_settle out =
     (case try_block out of Inl e \<Rightarrow> Inl (catch_block e) | Inr d \<Rightarrow> Inr d)"

text \<open>The whole function against a provider given as a function of the call.\<close>

definition generateMonochromeImage ::
  "(provider_call \<Rightarrow> outcome) \<Rightarrow> GoogleGenAI \<Rightarrow> jsstring \<Rightarrow> thrown + jsstring" where
  "generateMonochromeImage provider ai prompt =
     generateMonochromeImage_settle (provider (generateMonochromeImage_call ai prompt))"

section \<open>The Interaction Controller (App.tsx)\<close>

text \<open>
  The four \<open>useState\<close> cells of \<open>App\<close>, the module's client \<open>ai\<close>, and what the component
  has done to the provider: the calls whose promise has not settled yet (\<open>inflight\<close>) and
  every call issued so far (\<open>calls\<close>).
\<close>

record download_link =
  href :: jsstring
  download :: jsstring

record state =
  prompt :: jsstring
  generatedImage :: "jsstring option"
  isLoading :: bool
  error :: "jsstring option"
  ai :: GoogleGenAI
  inflight :: "provider_call list"
  calls :: "provider_call list"

definition App_init :: "GoogleGenAI \<Rightarrow> state" where
  "App_init a =
     \<lparr>prompt = [], generatedImage = None, isLoading = False, error = None, ai = a,
      inflight = [], calls = []\<rparr>"

text \<open>Loading the application: the service module first, then the component.\<close>

definition startup :: "environment \<Rightarrow> thrown + state" where
  "startup env = (case module_init env of Inl e \<Rightarrow> Inl e | Inr a \<Rightarrow> Inr (App_init a))"

text \<open>
  \<open>handleSubmit\<close> up to its \<open>await\<close>: the validation, the three state updates, and the call
  of \<open>generateMonochromeImage(prompt)\<close>, which issues the provider call.
\<close>

definition handleSubmit :: "state \<Rightarrow> state" where
  "handleSubmit s =
     (if trim (prompt s) = [] then s\<lparr>error := Some (js ''Please enter a prompt.'')\<rparr>
      else
        (let s1 = s\<lparr>isLoading := True, error := None, generatedImage := None\<rparr>;
             c = generateMonochromeImage_call (ai s1) (prompt s1)
         in s1\<lparr>inflight := inflight s1 @ [c], calls := calls s1 @ [c]\<rparr>))"

text \<open>
  \<open>handleSubmit\<close> after its \<open>await\<close>: the \<open>try\<close> body on a value, the \<open>catch\<close> on a rejection,
  then \<open>finally\<close>.
\<close>

definition handleSubmit_resume :: "thrown + jsstring \<Rightarrow> state \<Rightarrow> state" where
  "handleSubmit_resume res s =
     (let s1 = (case res of
                  Inr newImageBase64 \<Rightarrow>
                    s\<lparr>generatedImage := Some (js ''data:image/png;base64,'' @ newImageBase64)\<rparr>
                | Inl err \<Rightarrow>
                    s\<lparr>error := Some (case err of
                                       Error m \<Rightarrow> m
                                     | NonError _ \<Rightarrow> js ''An unknown error occurred.'')\<rparr>)
      in s1\<lparr>isLoading := False\<rparr>)"

text \<open>
  \<open>handleDownload\<close>: it updates no state cell; its result is the link it creates and
  clicks, or nothing when it returns early (\<open>!generatedImage\<close> holds of \<open>null\<close> and of the
  empty string). The first argument is the engine's case mapping, as for \<open>toLowerCase\<close>.
\<close>

definition handleDownload :: "(jsstring \<Rightarrow> jsstring) \<Rightarrow> state \<Rightarrow> download_link option" where
  "handleDownload unicodeLower s =
     (case generatedImage s of
        None \<Rightarrow> None
      | Some img \<Rightarrow>
          if img = [] then None
          else Some \<lparr>href = img, download = download_name unicodeLower (prompt s)\<rparr>)"

definition isGenerateDisabled :: "state \<Rightarrow> bool" where
  "isGenerateDisabled s \<longleftrightarrow> trim (prompt s) = [] \<or> isLoading s"

text \<open>
  What can happen to the rendered component. The text area is rendered with
  \<open>disabled={isLoading}\<close>, the Generate button with \<open>disabled={isGenerateDisabled}\<close>, and the
  Download button only when \<open>generatedImage && !isLoading\<close>; a disabled or absent control
  delivers no event. Each event meets the state as left by the events before it.
  \<open>Settle\<close> is the settling of the oldest provider call still in flight. A click on
  Download runs \<open>handleDownload\<close>, which leaves the state as it is.
\<close>

datatype event = Type jsstring | ClickGenerate | Settle outcome | ClickDownload

fun step :: "event \<Rightarrow> state \<Rightarrow> state" where
  "step (Type p) s = (if isLoading s then s else s\<lparr>prompt := p\<rparr>)"
| "step ClickGenerate s = (if isGenerateDisabled s then s else handleSubmit s)"
| "step (Settle out) s =
     (case inflight s of
        [] \<Rightarrow> s
      | c # cs \<Rightarrow> handleSubmit_resume (generateMonochromeImage_settle out) (s\<lparr>inflight := cs\<rparr>))"
| "step ClickDownload s = s"

definition run :: "event list \<Rightarrow> state \<Rightarrow> state" where
  "run evs s = fold step evs s"

section \<open>Invariants of the controller\<close>

text \<open>While loading there is exactly one provider call in flight, and neither an error nor
  an image is stored; otherwise no call is in flight.\<close>

definition loading_inv :: "state \<Rightarrow> bool" where
  "loading_inv s \<longleftrightarrow>
     (isLoading s \<longleftrightarrow> inflight s \<noteq> []) \<and> length (inflight s) \<le> 1
     \<and> (isLoading s \<longrightarrow> error s = None \<and> generatedImage s = None)"

text \<open>Every provider call goes through the client made at start-up, and the stored error is
  never the message of the start-up check.\<close>

definition client_inv :: "GoogleGenAI \<Rightarrow> state \<Rightarrow> bool" where
  "client_inv a s \<longleftrightarrow>
     ai s = a \<and> list_all (\<lambda>c. client c = a) (calls s) \<and> error s \<noteq> Some API_KEY_MISSING"

section \<open>Example data\<close>

text \<open>A stand-in for the engine's case mapping in examples whose strings are \<open>latin1\<close>, where
  it is not consulted.\<close>

definition no_case_mapping :: "jsstring \<Rightarrow> jsstring" where
  "no_case_mapping s = s"

definition demo_ai :: GoogleGenAI where
  "demo_ai = \<lparr>apiKey = js ''key''\<rparr>"

definition text_only_response :: response where
  "text_only_response =
     \<lparr>candidates = Some [\<lparr>content = Some \<lparr>parts = Some
        [\<lparr>partText = Some (js ''x''), inlineData = None\<rparr>]\<rparr>\<rparr>]\<rparr>"

definition text_then_image_response :: response where
  "text_then_image_response =
     \<lparr>candidates = Some [\<lparr>content = Some \<lparr>parts = Some
        [\<lparr>partText = Some (js ''x''), inlineData = None\<rparr>,
         \<lparr>partText = None,
          inlineData = Some \<lparr>mimeType = js ''image/png'', data = js ''abc''\<rparr>\<rparr>]\<rparr>\<rparr>]\<rparr>"

definition demo_typed :: state where
  "demo_typed = run [Type (js ''cat'')] (App_init demo_ai)"

definition demo_loading :: state where
  "demo_loading = run [Type (js ''cat''), ClickGenerate] (App_init demo_ai)"

definition demo_succeeded :: state where
  "demo_succeeded =
     run [Type (js ''cat''), ClickGenerate, Settle (Resolved text_then_image_response)]
       (App_init demo_ai)"

section \<open>Evaluation of string literals\<close>

lemmas string_eval =
  js_def trim_def isWhiteSpace_def lowerLatin1_def toLowerCase_def wordUnit_def latin1_def
  replace_nonword_def substring_0_50_def or_else_def filename_def download_name_def

section \<open>The download name\<close>

lemma replaceRuns_spec_collapse:
  "replaceRuns True s = spec_collapse (dropWhile (\<lambda>d. \<not> wordUnit d) s)
   \<and> replaceRuns False s = spec_collapse s"
  by (induction s) simp_all

lemma replace_nonword_spec: "replace_nonword s = spec_collapse s"
  by (simp add: replace_nonword_def replaceRuns_spec_collapse)

lemma spec_collapse_Nil_iff: "spec_collapse s = [] \<longleftrightarrow> s = []"
  by (cases s) simp_all

lemma spec_collapse_word: "list_all wordUnit (spec_collapse s)"
proof (induction s rule: spec_collapse.induct)
  case 1
  show ?case by simp
next
  case (2 c cs)
  have "wordUnit 0x5F" by (simp add: wordUnit_def)
  with 2 show ?case by simp
qed

lemma default_word: "list_all wordUnit (js ''generated_image'')"
  by (simp add: js_def wordUnit_def)

lemma list_all_take: "list_all P xs \<Longrightarrow> list_all P (take n xs)"
  by (auto simp: list_all_iff dest: in_set_takeD)

lemma latin1_trim: "latin1 p \<Longrightarrow> latin1 (trim p)"
  by (auto simp: latin1_def trim_def list_all_iff dest!: set_dropWhileD)

lemma toLowerCase_latin1: "latin1 s \<Longrightarrow> toLowerCase U s = map lowerLatin1 s"
  by (simp add: toLowerCase_def)

lemma toLowerCase_Nil: "toLowerCase U [] = []"
  by (simp add: toLowerCase_def latin1_def)

text \<open>On a \<open>latin1\<close> prompt the name does not depend on the engine's case tables.\<close>

lemma download_name_latin1: "latin1 p \<Longrightarrow> download_name U p = download_name V p"
  by (simp add: download_name_def filename_def toLowerCase_latin1 latin1_trim)

text \<open>
  C1, as the code has it. For every prompt, and whatever the engine's case tables are,
  the name of the downloaded file is made from the trimmed prompt: lower-cased by
  \<open>toLowerCase\<close>, every run of code units outside \<open>[a-z0-9_]\<close> replaced by one
  underscore, cut to 50 code units, and \<open>generated_image\<close> when that is empty; \<open>.png\<close> is
  appended. The sanitised text is empty exactly when the lower-cased trimmed prompt is
  empty: an empty or white-space-only prompt gets the default name, and a prompt of code
  units up to U+00FF gets it only then. The name before \<open>.png\<close> has only code units of
  \<open>[a-z0-9_]\<close> and at most 50 of them. \<open>A Red Fox!! 2024\<close> gives \<open>a_red_fox_2024.png\<close>;
  \<open>###\<close> gives \<open>_.png\<close>, not the default name.
\<close>

theorem download_name_sanitized:
  "download_name U p =
     (let s = take 50 (spec_collapse (toLowerCase U (trim p)))
      in (if s = [] then js ''generated_image'' else s) @ js ''.png'')
   \<and> (take 50 (spec_collapse (toLowerCase U (trim p))) = [] \<longleftrightarrow> toLowerCase U (trim p) = [])
   \<and> (trim p = [] \<longrightarrow> download_name U p = js ''generated_image.png'')
   \<and> (latin1 p \<longrightarrow>
        (take 50 (spec_collapse (toLowerCase U (trim p))) = [] \<longleftrightarrow> trim p = []))
   \<and> list_all wordUnit (filename U p) \<and> length (filename U p) \<le> 50
   \<and> download_name U (js ''A Red Fox!! 2024'') = js ''a_red_fox_2024.png''
   \<and> download_name U (js ''###'') = js ''_.png''"
proof -
  let ?s = "take 50 (spec_collapse (toLowerCase U (trim p)))"
  have name: "filename U p = (if ?s = [] then js ''generated_image'' else ?s)"
    by (simp add: filename_def or_else_def substring_0_50_def replace_nonword_spec)
  have full: "download_name U p =
      (let s = ?s in (if s = [] then js ''generated_image'' else s) @ js ''.png'')"
    by (simp add: download_name_def name Let_def)
  have empty: "?s = [] \<longleftrightarrow> toLowerCase U (trim p) = []"
    by (simp add: spec_collapse_Nil_iff)
  have blank: "trim p = [] \<longrightarrow> download_name U p = js ''generated_image.png''"
    by (simp add: download_name_def name toLowerCase_Nil js_def)
  have lat: "latin1 p \<longrightarrow> (?s = [] \<longleftrightarrow> trim p = [])"
    by (simp add: spec_collapse_Nil_iff toLowerCase_latin1 latin1_trim)
  have word: "list_all wordUnit (filename U p)"
    unfolding name using default_word spec_collapse_word list_all_take by auto
  have len: "length (filename U p) \<le> 50"
    unfolding name by (simp add: js_def)
  have fox: "download_name U (js ''A Red Fox!! 2024'') = js ''a_red_fox_2024.png''"
    by (simp add: string_eval)
  have sym: "download_name U (js ''###'') = js ''_.png''"
    by (simp add: string_eval)
  from full empty blank lat word len fox sym show ?thesis by blast
qed

theorem download_name_sanitized_witness:
  "latin1 (js ''  Moon & Stars  '')
   \<and> trim (js ''  Moon & Stars  '') \<noteq> []
   \<and> take 50 (spec_collapse (toLowerCase no_case_mapping (trim (js ''  Moon & Stars  '')))) \<noteq> []
   \<and> download_name no_case_mapping (js ''  Moon & Stars  '') = js ''moon_stars.png''
   \<and> trim (js ''   '') = []
   \<and> download_name no_case_mapping (js ''   '') = js ''generated_image.png''"
proof -
  have h: "latin1 (js ''  Moon & Stars  '')" "trim (js ''  Moon & Stars  '') \<noteq> []"
    by (simp_all add: js_def latin1_def trim_def isWhiteSpace_def)
  have b: "trim (js ''   '') = []"
    by (simp add: js_def trim_def isWhiteSpace_def)
  from download_name_sanitized [of no_case_mapping "js ''   ''"] b
  have blank: "download_name no_case_mapping (js ''   '') = js ''generated_image.png''"
    by blast
  from download_name_sanitized [of no_case_mapping "js ''  Moon & Stars  ''"] h
  have kept: "take 50 (spec_collapse (toLowerCase no_case_mapping (trim (js ''  Moon & Stars  ''))))
      \<noteq> []"
    by blast
  from download_name_sanitized [of no_case_mapping "js ''  Moon & Stars  ''"]
  have "download_name no_case_mapping (js ''  Moon & Stars  '') =
      (let s = take 50 (spec_collapse (toLowerCase no_case_mapping (trim (js ''  Moon & Stars  ''))))
       in (if s = [] then js ''generated_image'' else s) @ js ''.png'')"
    by blast
  then have "download_name no_case_mapping (js ''  Moon & Stars  '') = js ''moon_stars.png''"
    by (simp add: js_def trim_def isWhiteSpace_def lowerLatin1_def toLowerCase_def latin1_def
        wordUnit_def)
  with h b blank kept show ?thesis by blast
qed

text \<open>
  C1, as the specification has it, fails at the prompt \<open>###\<close>: the three symbols are one
  run, replaced by one underscore, so the sanitised text is \<open>_\<close>, not empty, and the
  default name is not used. The prompt is \<open>latin1\<close>, so by \<open>download_name_latin1\<close> the
  name is the same for every case mapping.
\<close>

theorem download_name_symbols_counterexample:
  "download_name no_case_mapping (js ''###'') = js ''_.png''
   \<and> download_name no_case_mapping (js ''###'') \<noteq> js ''generated_image.png''"
  by (simp add: string_eval)

section \<open>The service after the provider has settled\<close>

lemma scan_parts_None_iff:
  "scan_parts ps = None \<longleftrightarrow> list_all (\<lambda>q. inlineData q = None) ps"
  by (induction ps) (auto split: option.splits)

lemma scan_parts_first:
  "list_all (\<lambda>q. inlineData q = None) pre \<Longrightarrow> inlineData p = Some b \<Longrightarrow>
   scan_parts (pre @ p # post) = Some (data b)"
  by (induction pre) simp_all

lemma first_inline_split:
  assumes "\<exists>q \<in> set ps. inlineData q \<noteq> None"
  shows "\<exists>pre p b post. ps = pre @ p # post
           \<and> list_all (\<lambda>q. inlineData q = None) pre \<and> inlineData p = Some b"
proof -
  from assms obtain pre p post where
    "ps = pre @ p # post" "inlineData p \<noteq> None" "\<forall>q \<in> set pre. \<not> inlineData q \<noteq> None"
    using split_list_first_prop [of ps "\<lambda>q. inlineData q \<noteq> None"] by blast
  then show ?thesis by (auto simp: list_all_iff)
qed

lemma settle_no_image:
  "list_all (\<lambda>q. inlineData q = None) (response_parts r) \<Longrightarrow>
   generateMonochromeImage_settle (Resolved r) =
     Inl (Error (js ''Failed to generate image: '' @ NO_IMAGE_DATA))"
  by (simp add: generateMonochromeImage_settle_def try_block_def catch_block_def
      scan_parts_None_iff [symmetric])

lemma settle_rejected_Error:
  "generateMonochromeImage_settle (Rejected (Error m)) =
     Inl (Error (js ''Failed to generate image: '' @ m))"
  by (simp add: generateMonochromeImage_settle_def try_block_def catch_block_def)

lemma settle_rejected_NonError:
  "generateMonochromeImage_settle (Rejected (NonError v)) =
     Inl (Error (js ''An unknown error occurred while generating the image.''))"
  by (simp add: generateMonochromeImage_settle_def try_block_def catch_block_def)

lemma settle_image:
  "scan_parts (response_parts r) = Some d \<Longrightarrow>
   generateMonochromeImage_settle (Resolved r) = Inr d"
  by (simp add: generateMonochromeImage_settle_def try_block_def)

lemma no_image_message:
  "js ''Failed to generate image: '' @ NO_IMAGE_DATA =
   js ''Failed to generate image: No image data found in the API response.''"
  by (simp add: js_def NO_IMAGE_DATA_def)

lemma settle_not_config: "generateMonochromeImage_settle out \<noteq> Inl (Error API_KEY_MISSING)"
proof (cases out)
  case (Resolved r)
  show ?thesis
  proof (cases "scan_parts (response_parts r)")
    case None
    with Resolved show ?thesis
      by (simp add: generateMonochromeImage_settle_def try_block_def catch_block_def
          js_def API_KEY_MISSING_def)
  next
    case (Some d)
    with Resolved show ?thesis by (simp add: settle_image)
  qed
next
  case (Rejected e)
  then show ?thesis
    by (cases e)
       (simp_all add: settle_rejected_Error settle_rejected_NonError js_def API_KEY_MISSING_def)
qed

lemma text_then_image_parts:
  "response_parts text_then_image_response =
     [\<lparr>partText = Some (js ''x''), inlineData = None\<rparr>,
      \<lparr>partText = None, inlineData = Some \<lparr>mimeType = js ''image/png'', data = js ''abc''\<rparr>\<rparr>]"
  by (simp add: response_parts_def text_then_image_response_def)

lemma text_only_parts:
  "response_parts text_only_response = [\<lparr>partText = Some (js ''x''), inlineData = None\<rparr>]"
  by (simp add: response_parts_def text_only_response_def)

lemma response_parts_first_candidate:
  "candidates r = Some (c # cs) \<Longrightarrow> content c = Some ct \<Longrightarrow> parts ct = Some ps \<Longrightarrow>
   response_parts r = ps"
  by (simp add: response_parts_def)

text \<open>
  C3. For every provider response \<open>r\<close> whose first candidate \<open>c\<close> has content with the
  ordered parts \<open>ps\<close>, if some part of \<open>ps\<close> has inline data, then \<open>ps\<close> splits into a
  prefix without inline data, the first part \<open>p\<close> with inline data \<open>b\<close>, and the rest, and
  \<open>generateMonochromeImage\<close>, its provider call resolved with \<open>r\<close>, returns the data of
  \<open>b\<close>, whatever the text of the prefix, the rest, and the later candidates hold. For the
  parts \<open>[{text: "x"}, {inlineData: {data: "abc"}}]\<close> it returns \<open>abc\<close>.
\<close>

theorem first_inline_part_returned:
  assumes "candidates r = Some (c # cs)" and "content c = Some ct" and "parts ct = Some ps"
    and "\<exists>q \<in> set ps. inlineData q \<noteq> None"
  shows "(\<exists>pre p b post.
            ps = pre @ p # post
            \<and> list_all (\<lambda>q. inlineData q = None) pre
            \<and> inlineData p = Some b
            \<and> generateMonochromeImage (\<lambda>call. Resolved r) a pr = Inr (data b))
         \<and> generateMonochromeImage
              (\<lambda>call. Resolved
                 \<lparr>candidates = Some [\<lparr>content = Some \<lparr>parts = Some
                    [\<lparr>partText = Some (js ''x''), inlineData = None\<rparr>,
                     \<lparr>partText = None,
                      inlineData = Some \<lparr>mimeType = mt, data = js ''abc''\<rparr>\<rparr>]\<rparr>\<rparr>]\<rparr>)
              a pr
             = Inr (js ''abc'')"
proof -
  have parts: "response_parts r = ps"
    using assms(1-3) by (rule response_parts_first_candidate)
  from first_inline_split [OF assms(4)] obtain pre p b post where
    split: "ps = pre @ p # post"
      "list_all (\<lambda>q. inlineData q = None) pre" "inlineData p = Some b"
    by blast
  then have "scan_parts (response_parts r) = Some (data b)"
    by (simp add: parts scan_parts_first)
  then have "generateMonochromeImage (\<lambda>call. Resolved r) a pr = Inr (data b)"
    by (simp add: generateMonochromeImage_def settle_image)
  moreover have "generateMonochromeImage
              (\<lambda>call. Resolved
                 \<lparr>candidates = Some [\<lparr>content = Some \<lparr>parts = Some
                    [\<lparr>partText = Some (js ''x''), inlineData = None\<rparr>,
                     \<lparr>partText = None,
                      inlineData = Some \<lparr>mimeType = mt, data = js ''abc''\<rparr>\<rparr>]\<rparr>\<rparr>]\<rparr>)
              a pr
             = Inr (js ''abc'')"
    by (simp add: generateMonochromeImage_def settle_image response_parts_def)
  ultimately show ?thesis using split by blast
qed

theorem first_inline_part_returned_witness:
  "candidates text_then_image_response =
     Some [\<lparr>content = Some \<lparr>parts = Some
        [\<lparr>partText = Some (js ''x''), inlineData = None\<rparr>,
         \<lparr>partText = None,
          inlineData = Some \<lparr>mimeType = js ''image/png'', data = js ''abc''\<rparr>\<rparr>]\<rparr>\<rparr>]
   \<and> generateMonochromeImage (\<lambda>call. Resolved text_then_image_response) demo_ai (js ''cat'')
       = Inr (js ''abc'')"
proof -
  let ?t = "\<lparr>partText = Some (js ''x''), inlineData = None\<rparr>"
  let ?i = "\<lparr>partText = None,
             inlineData = Some \<lparr>mimeType = js ''image/png'', data = js ''abc''\<rparr>\<rparr>"
  have h1: "candidates text_then_image_response =
      Some (\<lparr>content = Some \<lparr>parts = Some [?t, ?i]\<rparr>\<rparr> # [])"
    by (simp add: text_then_image_response_def)
  have h2: "content \<lparr>content = Some \<lparr>parts = Some [?t, ?i]\<rparr>\<rparr> = Some \<lparr>parts = Some [?t, ?i]\<rparr>"
    by simp
  have h3: "parts \<lparr>parts = Some [?t, ?i]\<rparr> = Some [?t, ?i]"
    by simp
  have h4: "\<exists>q \<in> set [?t, ?i]. inlineData q \<noteq> None"
    by simp
  from first_inline_part_returned [OF h1 h2 h3 h4, of demo_ai "js ''cat''"]
  obtain pre p b post where
    d: "[?t, ?i] = pre @ p # post"
       "list_all (\<lambda>q. inlineData q = None) pre" "inlineData p = Some b"
    and res: "generateMonochromeImage (\<lambda>call. Resolved text_then_image_response) demo_ai
                (js ''cat'') = Inr (data b)"
    by blast
  from d have "data b = js ''abc''"
    by (auto simp: Cons_eq_append_conv)
  with h1 res show ?thesis by simp
qed

section \<open>The controller's handlers\<close>

lemma App_init_fields:
  "prompt (App_init a) = []" "generatedImage (App_init a) = None"
  "isLoading (App_init a) = False" "error (App_init a) = None" "ai (App_init a) = a"
  "inflight (App_init a) = []" "calls (App_init a) = []"
  by (simp_all add: App_init_def)

lemma handleSubmit_fields:
  "trim (prompt s) \<noteq> [] \<Longrightarrow>
   handleSubmit s =
     s\<lparr>isLoading := True, error := None, generatedImage := None,
       inflight := inflight s @ [generateMonochromeImage_call (ai s) (prompt s)],
       calls := calls s @ [generateMonochromeImage_call (ai s) (prompt s)]\<rparr>"
  by (simp add: handleSubmit_def Let_def)

lemma handleSubmit_empty:
  "trim (prompt s) = [] \<Longrightarrow>
   handleSubmit s = s\<lparr>error := Some (js ''Please enter a prompt.'')\<rparr>"
  by (simp add: handleSubmit_def)

lemma resume_fields:
  "isLoading (handleSubmit_resume res s) = False"
  "inflight (handleSubmit_resume res s) = inflight s"
  "calls (handleSubmit_resume res s) = calls s"
  "ai (handleSubmit_resume res s) = ai s"
  "prompt (handleSubmit_resume res s) = prompt s"
  by (simp_all add: handleSubmit_resume_def Let_def split: sum.splits)

lemma resume_Inl:
  "handleSubmit_resume (Inl e) s =
     s\<lparr>error := Some (case e of Error w \<Rightarrow> w | NonError _ \<Rightarrow> js ''An unknown error occurred.''),
       isLoading := False\<rparr>"
  by (simp add: handleSubmit_resume_def)

lemma resume_Inr:
  "handleSubmit_resume (Inr d) s =
     s\<lparr>generatedImage := Some (js ''data:image/png;base64,'' @ d), isLoading := False\<rparr>"
  by (simp add: handleSubmit_resume_def)

text \<open>
  \<open>handleSubmit\<close> has no guard on \<open>isLoading\<close> of its own: called twice in a row it issues two
  provider calls. The single flight of the component rests on the Generate button being
  disabled while loading. Likewise the button is disabled for a prompt that is empty
  after trimming, so a click never reaches the validation branch of \<open>handleSubmit\<close>.
\<close>

lemma handleSubmit_unguarded:
  "trim (prompt s) \<noteq> [] \<Longrightarrow>
   length (inflight (handleSubmit (handleSubmit s))) = length (inflight s) + 2"
  by (simp add: handleSubmit_fields)

lemma click_empty_prompt_ignored: "trim (prompt s) = [] \<Longrightarrow> step ClickGenerate s = s"
  by (simp add: isGenerateDisabled_def)

section \<open>Trimming\<close>

lemma dropWhile_all_iff: "(\<forall>x \<in> set (dropWhile P xs). P x) \<longleftrightarrow> (\<forall>x \<in> set xs. P x)"
  by (induction xs) auto

lemma trim_Nil_iff: "trim s = [] \<longleftrightarrow> list_all isWhiteSpace s"
  by (simp add: trim_def dropWhile_eq_Nil_conv dropWhile_all_iff list_all_iff)

lemma dropWhile_keeps_head:
  assumes "\<not> P x"
  shows "dropWhile P (rev (dropWhile P (rev (x # ys)))) = rev (dropWhile P (rev (x # ys)))"
proof -
  have "\<exists>zs. dropWhile P (rev (x # ys)) = zs @ [x]"
    using assms by (cases "\<forall>y \<in> set ys. P y") (simp_all add: dropWhile_append)
  then obtain zs where "dropWhile P (rev (x # ys)) = zs @ [x]" ..
  with assms show ?thesis by simp
qed

lemma trim_idem: "trim (trim s) = trim s"
proof (cases "dropWhile isWhiteSpace s")
  case Nil
  have "trim s = []" unfolding trim_def Nil by simp
  moreover have "trim [] = []" by (simp add: trim_def)
  ultimately show ?thesis by simp
next
  case (Cons x ys)
  then have "\<not> isWhiteSpace x"
    using hd_dropWhile [of isWhiteSpace s] by simp
  then have "dropWhile isWhiteSpace (trim s) = trim s"
    unfolding trim_def Cons by (rule dropWhile_keeps_head)
  then show ?thesis by (simp add: trim_def)
qed

lemma download_name_trim: "download_name U (trim p) = download_name U p"
  by (simp add: download_name_def filename_def trim_idem)

lemma STYLE_SUFFIX_length: "length STYLE_SUFFIX = 83"
  by (simp add: STYLE_SUFFIX_def js_def)

section \<open>Reachable states\<close>

lemma loading_inv_init: "loading_inv (App_init a)"
  by (simp add: loading_inv_def App_init_def)

lemma loading_inv_step: "loading_inv s \<Longrightarrow> loading_inv (step e s)"
proof (cases e)
  case (Type p)
  assume "loading_inv s"
  with Type show ?thesis by (simp add: loading_inv_def)
next
  case ClickGenerate
  assume "loading_inv s"
  with ClickGenerate show ?thesis
    by (auto simp: loading_inv_def isGenerateDisabled_def handleSubmit_fields)
next
  case (Settle out)
  assume inv: "loading_inv s"
  show ?thesis
  proof (cases "inflight s")
    case Nil
    with inv Settle show ?thesis by simp
  next
    case (Cons c cs)
    with inv have "cs = []" by (simp add: loading_inv_def)
    with Cons Settle show ?thesis by (simp add: loading_inv_def resume_fields)
  qed
next
  case ClickDownload
  assume "loading_inv s"
  with ClickDownload show ?thesis by simp
qed

lemma loading_inv_run: "loading_inv s \<Longrightarrow> loading_inv (run evs s)"
  unfolding run_def by (induction evs arbitrary: s) (simp_all add: loading_inv_step)

lemma loading_inv_reachable: "loading_inv (run evs (App_init a))"
  by (simp add: loading_inv_run loading_inv_init)

lemma run_clicks_loading:
  "isLoading s \<Longrightarrow> run (replicate n ClickGenerate) s = s"
  unfolding run_def by (induction n) (simp_all add: isGenerateDisabled_def)

lemma client_inv_step: "client_inv a s \<Longrightarrow> client_inv a (step e s)"
proof (cases e)
  case (Type p)
  assume "client_inv a s"
  with Type show ?thesis by (simp add: client_inv_def)
next
  case ClickGenerate
  assume "client_inv a s"
  with ClickGenerate show ?thesis
    by (simp add: client_inv_def handleSubmit_def Let_def generateMonochromeImage_call_def
        js_def API_KEY_MISSING_def)
next
  case (Settle out)
  assume inv: "client_inv a s"
  show ?thesis
  proof (cases "inflight s")
    case Nil
    with inv Settle show ?thesis by simp
  next
    case (Cons c cs)
    show ?thesis
    proof (cases "generateMonochromeImage_settle out")
      case (Inl e)
      then obtain w where e: "e = Error w"
        by (cases out)
           (auto simp: generateMonochromeImage_settle_def try_block_def catch_block_def
              split: option.splits thrown.splits)
      with Inl settle_not_config [of out] have "w \<noteq> API_KEY_MISSING" by simp
      with inv Settle Cons Inl e show ?thesis
        by (simp add: client_inv_def resume_Inl)
    next
      case (Inr d)
      with inv Settle Cons show ?thesis by (simp add: client_inv_def resume_Inr)
    qed
  qed
next
  case ClickDownload
  assume "client_inv a s"
  with ClickDownload show ?thesis by simp
qed

lemma client_inv_run: "client_inv a s \<Longrightarrow> client_inv a (run evs s)"
  unfolding run_def by (induction evs arbitrary: s) (simp_all add: client_inv_step)

lemma client_inv_init: "client_inv a (App_init a)"
  by (simp add: client_inv_def App_init_def)

section \<open>The example states\<close>

lemma trim_cat: "trim (js ''cat'') = js ''cat''"
  by (simp add: trim_def isWhiteSpace_def js_def)

lemma cat_nonempty: "js ''cat'' \<noteq> []"
  by (simp add: js_def)

lemma demo_typed_eq: "demo_typed = (App_init demo_ai)\<lparr>prompt := js ''cat''\<rparr>"
  by (simp add: demo_typed_def run_def App_init_fields)

lemma demo_loading_eq:
  "demo_loading =
     (App_init demo_ai)
       \<lparr>prompt := js ''cat'', isLoading := True,
        inflight := [generateMonochromeImage_call demo_ai (js ''cat'')],
        calls := [generateMonochromeImage_call demo_ai (js ''cat'')]\<rparr>"
  by (simp add: demo_loading_def run_def App_init_fields isGenerateDisabled_def handleSubmit_def
      Let_def trim_cat cat_nonempty)

lemma demo_succeeded_eq:
  "demo_succeeded =
     (App_init demo_ai)
       \<lparr>prompt := js ''cat'', generatedImage := Some (js ''data:image/png;base64,abc''),
        calls := [generateMonochromeImage_call demo_ai (js ''cat'')]\<rparr>"
proof -
  have "demo_succeeded = step (Settle (Resolved text_then_image_response)) demo_loading"
    by (simp add: demo_succeeded_def demo_loading_def run_def)
  moreover have "generateMonochromeImage_settle (Resolved text_then_image_response) = Inr (js ''abc'')"
    by (simp add: settle_image text_then_image_parts)
  ultimately show ?thesis
    by (simp add: demo_loading_eq resume_Inr App_init_def js_def)
qed

section \<open>Claims about the service\<close>

text \<open>
  C2, as the code has it. For every provider response that succeeds but in which no part
  (of the first candidate) has inline data, \<open>generateMonochromeImage\<close> fails with the fixed
  message \<open>Failed to generate image: No image data found in the API response.\<close>: the error
  thrown after the loop is caught by the function's own \<open>catch\<close> and wrapped as a provider
  failure with that message would be. In every reachable loading state the controller
  then leaves loading with no image and with that message as its error.
\<close>

theorem no_image_data_wrapped:
  assumes "list_all (\<lambda>q. inlineData q = None) (response_parts r)"
    and "s = run evs (App_init a)" and "isLoading s"
  shows "generateMonochromeImage_settle (Resolved r) =
           Inl (Error (js ''Failed to generate image: No image data found in the API response.''))
         \<and> generateMonochromeImage_settle (Resolved r) =
             generateMonochromeImage_settle (Rejected (Error NO_IMAGE_DATA))
         \<and> \<not> isLoading (step (Settle (Resolved r)) s)
         \<and> generatedImage (step (Settle (Resolved r)) s) = None
         \<and> inflight (step (Settle (Resolved r)) s) = []
         \<and> error (step (Settle (Resolved r)) s) =
             Some (js ''Failed to generate image: No image data found in the API response.'')"
proof -
  have inv: "loading_inv s" using assms(2) by (simp add: loading_inv_reachable)
  with assms(3) obtain c where c: "inflight s = [c]" and img: "generatedImage s = None"
    by (cases "inflight s") (auto simp: loading_inv_def)
  have res: "generateMonochromeImage_settle (Resolved r) =
      Inl (Error (js ''Failed to generate image: No image data found in the API response.''))"
    using assms(1) by (simp add: settle_no_image no_image_message)
  have same: "generateMonochromeImage_settle (Resolved r) =
      generateMonochromeImage_settle (Rejected (Error NO_IMAGE_DATA))"
    using assms(1) by (simp add: settle_no_image settle_rejected_Error)
  from c img res same show ?thesis by (simp add: resume_Inl)
qed

theorem no_image_data_wrapped_witness:
  "list_all (\<lambda>q. inlineData q = None) (response_parts text_only_response)
   \<and> isLoading demo_loading
   \<and> \<not> isLoading (step (Settle (Resolved text_only_response)) demo_loading)
   \<and> error (step (Settle (Resolved text_only_response)) demo_loading) =
       Some (js ''Failed to generate image: No image data found in the API response.'')"
proof -
  have h1: "list_all (\<lambda>q. inlineData q = None) (response_parts text_only_response)"
    by (simp add: text_only_parts)
  have h2: "demo_loading = run [Type (js ''cat''), ClickGenerate] (App_init demo_ai)"
    by (rule demo_loading_def)
  have h3: "isLoading demo_loading" by (simp add: demo_loading_eq)
  from no_image_data_wrapped [OF h1 h2 h3] h1 h3 show ?thesis by blast
qed

text \<open>
  C2, as the specification has it, fails for the response whose only part is the text
  \<open>x\<close>: the failure is not the bare message \<open>No image data found in the API response.\<close>
  but that message behind the prefix of the provider-failure wrapping, the same value
  that a rejection of the provider with that message gives.
\<close>

theorem no_image_data_counterexample:
  "generateMonochromeImage_settle (Resolved text_only_response) \<noteq> Inl (Error NO_IMAGE_DATA)
   \<and> generateMonochromeImage_settle (Resolved text_only_response) =
       generateMonochromeImage_settle (Rejected (Error NO_IMAGE_DATA))"
  by (simp add: generateMonochromeImage_settle_def try_block_def catch_block_def
      text_only_parts NO_IMAGE_DATA_def js_def)

text \<open>
  C7. For every prompt (empty or not) the one request that \<open>generateMonochromeImage\<close> sends
  carries the single text \<open>prompt + STYLE_SUFFIX\<close>: the prompt, then the 83 code units of the
  fixed suffix and nothing more, so the suffix is appended once and not twice; and a
  submit with a prompt that is not empty after trimming issues exactly one such call.
\<close>

theorem style_suffix_appended_once:
  "contents (args (generateMonochromeImage_call a p)) = [p @ STYLE_SUFFIX]
   \<and> length (fullPrompt p) = length p + 83
   \<and> take (length p) (fullPrompt p) = p
   \<and> drop (length p) (fullPrompt p) = STYLE_SUFFIX
   \<and> fullPrompt p \<noteq> p
   \<and> fullPrompt p \<noteq> p @ STYLE_SUFFIX @ STYLE_SUFFIX
   \<and> (trim (prompt s) \<noteq> [] \<longrightarrow>
        calls (handleSubmit s) = calls s @ [generateMonochromeImage_call (ai s) (prompt s)])"
proof -
  have ne: "STYLE_SUFFIX \<noteq> []" using STYLE_SUFFIX_length by auto
  have c: "contents (args (generateMonochromeImage_call a p)) = [p @ STYLE_SUFFIX]"
    by (simp add: generateMonochromeImage_call_def fullPrompt_def)
  have l: "length (fullPrompt p) = length p + 83"
    by (simp add: fullPrompt_def STYLE_SUFFIX_length)
  have t: "take (length p) (fullPrompt p) = p" "drop (length p) (fullPrompt p) = STYLE_SUFFIX"
    by (simp_all add: fullPrompt_def)
  have n: "fullPrompt p \<noteq> p" "fullPrompt p \<noteq> p @ STYLE_SUFFIX @ STYLE_SUFFIX"
    using ne by (simp_all add: fullPrompt_def)
  have h: "trim (prompt s) \<noteq> [] \<longrightarrow>
        calls (handleSubmit s) = calls s @ [generateMonochromeImage_call (ai s) (prompt s)]"
    by (simp add: handleSubmit_fields)
  from c l t n h show ?thesis by blast
qed

theorem style_suffix_appended_once_witness:
  "trim (prompt demo_typed) \<noteq> []
   \<and> calls (handleSubmit demo_typed) = [generateMonochromeImage_call demo_ai (js ''cat'')]
   \<and> contents (args (generateMonochromeImage_call demo_ai (js ''cat''))) =
       [js ''cat, promptu sadece arkaplan siyah olacak '' @ [0x15F] @
        js ''ekilde sadece beyaz renk kullanarak '' @ [0xE7] @ js ''izecek'']"
proof -
  have h: "trim (prompt demo_typed) \<noteq> []"
    by (simp add: demo_typed_eq trim_cat cat_nonempty)
  from style_suffix_appended_once [of demo_ai "js ''cat''" demo_typed] h
  have "contents (args (generateMonochromeImage_call demo_ai (js ''cat''))) = [js ''cat'' @ STYLE_SUFFIX]"
    and "calls (handleSubmit demo_typed) =
           calls demo_typed @ [generateMonochromeImage_call (ai demo_typed) (prompt demo_typed)]"
    by blast+
  with h show ?thesis
    by (simp add: demo_typed_eq App_init_fields STYLE_SUFFIX_def js_def)
qed

text \<open>
  C8. When the provider call is rejected with an \<open>Error\<close> object of message \<open>m\<close>,
  \<open>generateMonochromeImage\<close> fails with an \<open>Error\<close> whose message is
  \<open>Failed to generate image: \<close> followed by \<open>m\<close>, so \<open>m\<close> is kept as the end of the
  wrapped message; rejected with anything else, it fails with a fixed generic message.
  The controller stores the message of an \<open>Error\<close> it catches and a generic message for
  anything else; with a call in flight it therefore ends, not loading, with the wrapped
  message, or with the service's generic message, as its error.
\<close>

theorem provider_failure_wrapped:
  "generateMonochromeImage_settle (Rejected (Error m)) =
     Inl (Error (js ''Failed to generate image: '' @ m))
   \<and> suffix m (message (catch_block (Error m)))
   \<and> generateMonochromeImage_settle (Rejected (NonError v)) =
       Inl (Error (js ''An unknown error occurred while generating the image.''))
   \<and> handleSubmit_resume (Inl e) s =
       s\<lparr>error := Some (case e of Error w \<Rightarrow> w
                               | NonError _ \<Rightarrow> js ''An unknown error occurred.''),
         isLoading := False\<rparr>
   \<and> (inflight s \<noteq> [] \<longrightarrow>
        error (step (Settle (Rejected (Error m))) s) = Some (js ''Failed to generate image: '' @ m)
        \<and> error (step (Settle (Rejected (NonError v))) s) =
            Some (js ''An unknown error occurred while generating the image.'')
        \<and> \<not> isLoading (step (Settle (Rejected (Error m))) s)
        \<and> \<not> isLoading (step (Settle (Rejected (NonError v))) s))"
  by (cases "inflight s")
     (simp_all add: settle_rejected_Error settle_rejected_NonError resume_Inl catch_block_def
        suffix_def)

theorem provider_failure_wrapped_witness:
  "inflight demo_loading \<noteq> []
   \<and> error (step (Settle (Rejected (Error (js ''quota exceeded'')))) demo_loading) =
       Some (js ''Failed to generate image: quota exceeded'')
   \<and> \<not> isLoading (step (Settle (Rejected (Error (js ''quota exceeded'')))) demo_loading)"
proof -
  have h: "inflight demo_loading \<noteq> []" by (simp add: demo_loading_eq)
  from provider_failure_wrapped [of "js ''quota exceeded''" "js ''boom''" "Error []" demo_loading] h
  have "error (step (Settle (Rejected (Error (js ''quota exceeded'')))) demo_loading) =
          Some (js ''Failed to generate image: '' @ js ''quota exceeded'')"
    and "\<not> isLoading (step (Settle (Rejected (Error (js ''quota exceeded'')))) demo_loading)"
    by blast+
  with h show ?thesis by (simp add: js_def)
qed

text \<open>
  C9. When the credential is absent from the environment, loading the application fails
  with the error \<open>API_KEY environment variable is not set.\<close> and no component state
  comes to exist (it fails in just two cases: the credential absent, or the empty
  string). When loading succeeds, the client holds the credential read then, every later
  provider call goes through that client, and no request ends in the start-up error:
  neither the service's result nor the controller's stored error is ever that message.
\<close>

theorem credential_checked_at_startup:
  "(API_KEY env = None \<longrightarrow> startup env = Inl (Error API_KEY_MISSING))
   \<and> ((\<exists>e. startup env = Inl e) \<longleftrightarrow> API_KEY env = None \<or> API_KEY env = Some [])
   \<and> (startup env = Inr s0 \<longrightarrow>
        API_KEY env = Some (apiKey (ai s0))
        \<and> ai (run evs s0) = ai s0
        \<and> list_all (\<lambda>c. client c = ai s0) (calls (run evs s0))
        \<and> error (run evs s0) \<noteq> Some API_KEY_MISSING)
   \<and> generateMonochromeImage_settle out \<noteq> Inl (Error API_KEY_MISSING)"
proof -
  have absent: "API_KEY env = None \<longrightarrow> startup env = Inl (Error API_KEY_MISSING)"
    by (simp add: startup_def module_init_def)
  have fails: "(\<exists>e. startup env = Inl e) \<longleftrightarrow> API_KEY env = None \<or> API_KEY env = Some []"
    by (auto simp: startup_def module_init_def split: option.splits)
  have present: "API_KEY env = Some (apiKey (ai s0))
        \<and> ai (run evs s0) = ai s0
        \<and> list_all (\<lambda>c. client c = ai s0) (calls (run evs s0))
        \<and> error (run evs s0) \<noteq> Some API_KEY_MISSING" if up: "startup env = Inr s0"
  proof -
    from up obtain k where k: "API_KEY env = Some k" "k \<noteq> []" "s0 = App_init \<lparr>apiKey = k\<rparr>"
      by (auto simp: startup_def module_init_def split: option.splits if_splits)
    then have "client_inv \<lparr>apiKey = k\<rparr> (run evs s0)"
      by (simp add: client_inv_run client_inv_init)
    with k show ?thesis by (simp add: client_inv_def App_init_def)
  qed
  from absent fails present settle_not_config show ?thesis by blast
qed

theorem credential_checked_at_startup_witness:
  "API_KEY \<lparr>API_KEY = None\<rparr> = None
   \<and> startup \<lparr>API_KEY = None\<rparr> = Inl (Error API_KEY_MISSING)
   \<and> startup \<lparr>API_KEY = Some (js ''key'')\<rparr> = Inr (App_init demo_ai)
   \<and> calls demo_loading \<noteq> []
   \<and> list_all (\<lambda>c. client c = demo_ai) (calls demo_loading)"
proof -
  have h1: "API_KEY \<lparr>API_KEY = None\<rparr> = None" by simp
  have h2: "startup \<lparr>API_KEY = Some (js ''key'')\<rparr> = Inr (App_init demo_ai)"
    by (simp add: startup_def module_init_def demo_ai_def js_def)
  from credential_checked_at_startup [of "\<lparr>API_KEY = None\<rparr>"] h1
  have a: "startup \<lparr>API_KEY = None\<rparr> = Inl (Error API_KEY_MISSING)" by blast
  from credential_checked_at_startup
         [of "\<lparr>API_KEY = Some (js ''key'')\<rparr>" "App_init demo_ai"
             "[Type (js ''cat''), ClickGenerate]"] h2
  have "list_all (\<lambda>c. client c = ai (App_init demo_ai))
          (calls (run [Type (js ''cat''), ClickGenerate] (App_init demo_ai)))"
    by blast
  then have b: "list_all (\<lambda>c. client c = demo_ai) (calls demo_loading)"
    by (simp add: App_init_fields demo_loading_def)
  have c: "calls demo_loading \<noteq> []" by (simp add: demo_loading_eq)
  from h1 h2 a b c show ?thesis by blast
qed

section \<open>Claims about the controller\<close>

text \<open>
  C4. In every state the component can reach from its initial state, at most one provider
  call is in flight, and one is in flight exactly while loading; while loading, a click
  on Generate changes nothing (the button is disabled), so it issues no call; and from a
  state that is not loading, with a prompt that is not empty after trimming, any number
  \<open>n + 1\<close> of clicks in a row issues exactly one provider call and leaves one in flight.
\<close>

theorem single_flight:
  assumes "s = run evs (App_init a)"
  shows "length (inflight s) \<le> 1
         \<and> (isLoading s \<longleftrightarrow> inflight s \<noteq> [])
         \<and> (isLoading s \<longrightarrow> step ClickGenerate s = s)
         \<and> (\<not> isLoading s \<and> trim (prompt s) \<noteq> [] \<longrightarrow>
              calls (run (replicate (Suc n) ClickGenerate) s) =
                calls s @ [generateMonochromeImage_call (ai s) (prompt s)]
              \<and> length (inflight (run (replicate (Suc n) ClickGenerate) s)) = 1)"
proof -
  have inv: "loading_inv s" using assms by (simp add: loading_inv_reachable)
  have one: "length (inflight s) \<le> 1" and iff: "isLoading s \<longleftrightarrow> inflight s \<noteq> []"
    using inv by (simp_all add: loading_inv_def)
  have rej: "isLoading s \<longrightarrow> step ClickGenerate s = s"
    by (simp add: isGenerateDisabled_def)
  have burst: "calls (run (replicate (Suc n) ClickGenerate) s) =
          calls s @ [generateMonochromeImage_call (ai s) (prompt s)]
        \<and> length (inflight (run (replicate (Suc n) ClickGenerate) s)) = 1"
    if idle: "\<not> isLoading s" and pr: "trim (prompt s) \<noteq> []"
  proof -
    from idle iff have none: "inflight s = []" by simp
    have first: "step ClickGenerate s = handleSubmit s"
      using idle pr by (simp add: isGenerateDisabled_def)
    have load: "isLoading (handleSubmit s)"
      using pr by (simp add: handleSubmit_fields)
    have "run (replicate (Suc n) ClickGenerate) s
            = run (replicate n ClickGenerate) (handleSubmit s)"
      using first by (simp add: run_def)
    also have "\<dots> = handleSubmit s" using load by (rule run_clicks_loading)
    finally show ?thesis using pr none by (simp add: handleSubmit_fields)
  qed
  from one iff rej burst show ?thesis by blast
qed

theorem single_flight_witness:
  "isLoading demo_loading
   \<and> step ClickGenerate demo_loading = demo_loading
   \<and> \<not> isLoading demo_typed
   \<and> trim (prompt demo_typed) \<noteq> []
   \<and> calls (run [ClickGenerate, ClickGenerate, ClickGenerate] demo_typed) =
       [generateMonochromeImage_call demo_ai (js ''cat'')]
   \<and> length (inflight (run [ClickGenerate, ClickGenerate, ClickGenerate] demo_typed)) = 1"
proof -
  have busy: "isLoading demo_loading" by (simp add: demo_loading_eq)
  have idle: "\<not> isLoading demo_typed" "trim (prompt demo_typed) \<noteq> []"
    by (simp_all add: demo_typed_eq App_init_fields trim_cat cat_nonempty)
  have clicks: "replicate (Suc 2) ClickGenerate = [ClickGenerate, ClickGenerate, ClickGenerate]"
    by (simp add: numeral_2_eq_2)
  from single_flight [OF demo_loading_def] busy
  have rejected: "step ClickGenerate demo_loading = demo_loading" by blast
  from single_flight [OF demo_typed_def, of 2] idle
  have "calls (run (replicate (Suc 2) ClickGenerate) demo_typed) =
          calls demo_typed @ [generateMonochromeImage_call (ai demo_typed) (prompt demo_typed)]"
    and "length (inflight (run (replicate (Suc 2) ClickGenerate) demo_typed)) = 1"
    by blast+
  then have "calls (run [ClickGenerate, ClickGenerate, ClickGenerate] demo_typed) =
               [generateMonochromeImage_call demo_ai (js ''cat'')]"
    and "length (inflight (run [ClickGenerate, ClickGenerate, ClickGenerate] demo_typed)) = 1"
    unfolding clicks by (simp_all add: demo_typed_eq App_init_fields)
  with busy idle rejected show ?thesis by blast
qed

text \<open>
  C5. For every submit with a prompt that is not empty after trimming, \<open>handleSubmit\<close> sets
  the error and the image to \<open>null\<close> and the loading flag, and issues the provider call from
  that state; and in every state the component can reach, if it is loading then no error
  and no image is stored.
\<close>

theorem submit_clears_before_loading:
  "(trim (prompt s) \<noteq> [] \<longrightarrow>
      isLoading (handleSubmit s) \<and> error (handleSubmit s) = None
      \<and> generatedImage (handleSubmit s) = None
      \<and> calls (handleSubmit s) = calls s @ [generateMonochromeImage_call (ai s) (prompt s)])
   \<and> (isLoading (run evs (App_init a)) \<longrightarrow>
        error (run evs (App_init a)) = None \<and> generatedImage (run evs (App_init a)) = None)"
  using loading_inv_reachable [of evs a]
  by (simp add: handleSubmit_fields loading_inv_def)

theorem submit_clears_before_loading_witness:
  "trim (prompt demo_succeeded) \<noteq> []
   \<and> generatedImage demo_succeeded = Some (js ''data:image/png;base64,abc'')
   \<and> isLoading (handleSubmit demo_succeeded)
   \<and> generatedImage (handleSubmit demo_succeeded) = None
   \<and> error (handleSubmit demo_succeeded) = None
   \<and> isLoading (run [Type (js ''cat''), ClickGenerate] (App_init demo_ai))
   \<and> generatedImage (run [Type (js ''cat''), ClickGenerate] (App_init demo_ai)) = None"
proof -
  have h: "trim (prompt demo_succeeded) \<noteq> []"
    and img: "generatedImage demo_succeeded = Some (js ''data:image/png;base64,abc'')"
    by (simp_all add: demo_succeeded_eq trim_cat cat_nonempty)
  have busy: "isLoading (run [Type (js ''cat''), ClickGenerate] (App_init demo_ai))"
    using demo_loading_eq by (simp add: demo_loading_def)
  from submit_clears_before_loading
         [of demo_succeeded "[Type (js ''cat''), ClickGenerate]" demo_ai] h busy
  have "isLoading (handleSubmit demo_succeeded)"
    and "generatedImage (handleSubmit demo_succeeded) = None"
    and "error (handleSubmit demo_succeeded) = None"
    and "generatedImage (run [Type (js ''cat''), ClickGenerate] (App_init demo_ai)) = None"
    by blast+
  with h img busy show ?thesis by blast
qed

lemma settle_not_validation:
  "generateMonochromeImage_settle out \<noteq> Inl (Error (js ''Please enter a prompt.''))"
proof (cases out)
  case (Resolved r)
  show ?thesis
  proof (cases "scan_parts (response_parts r)")
    case None
    with Resolved show ?thesis
      by (simp add: generateMonochromeImage_settle_def try_block_def catch_block_def js_def)
  next
    case (Some d)
    with Resolved show ?thesis by (simp add: settle_image)
  qed
next
  case (Rejected e)
  then show ?thesis
    by (cases e) (simp_all add: settle_rejected_Error settle_rejected_NonError js_def)
qed

lemma no_validation_step:
  assumes "error s \<noteq> Some (js ''Please enter a prompt.'')"
  shows "error (step e s) \<noteq> Some (js ''Please enter a prompt.'')"
proof (cases e)
  case (Type p)
  with assms show ?thesis by simp
next
  case ClickGenerate
  with assms show ?thesis
    by (auto simp: isGenerateDisabled_def handleSubmit_fields)
next
  case (Settle out)
  show ?thesis
  proof (cases "inflight s")
    case Nil
    with assms Settle show ?thesis by simp
  next
    case (Cons c cs)
    show ?thesis
    proof (cases "generateMonochromeImage_settle out")
      case (Inl e)
      then obtain w where e: "e = Error w"
        by (cases out)
           (auto simp: generateMonochromeImage_settle_def try_block_def catch_block_def
              split: option.splits thrown.splits)
      with Inl settle_not_validation [of out] have "w \<noteq> js ''Please enter a prompt.''" by simp
      with Settle Cons Inl e show ?thesis by (simp add: resume_Inl)
    next
      case (Inr d)
      with assms Settle Cons show ?thesis by (simp add: resume_Inr)
    qed
  qed
next
  case ClickDownload
  with assms show ?thesis by simp
qed

lemma no_validation_run:
  "error s \<noteq> Some (js ''Please enter a prompt.'') \<Longrightarrow>
   error (run evs s) \<noteq> Some (js ''Please enter a prompt.'')"
  unfolding run_def by (induction evs arbitrary: s) (simp_all add: no_validation_step)

text \<open>
  C6, as the code has it. For every state whose prompt is empty after trimming, that is,
  a prompt of white space only: a submit event, the click on Generate, changes nothing,
  since the button is disabled for such a prompt; it issues no provider call and sets no
  error, and in no state the component can reach is the validation message the stored
  error. \<open>handleSubmit\<close> itself, were it called in such a state, would set the error to
  \<open>Please enter a prompt.\<close> and change nothing else: no provider call is issued or put in
  flight, and the loading flag and the stored image are as before.
\<close>

theorem empty_prompt_submit:
  assumes "trim (prompt s) = []"
  shows "list_all isWhiteSpace (prompt s)
         \<and> step ClickGenerate s = s
         \<and> error (run evs (App_init a)) \<noteq> Some (js ''Please enter a prompt.'')
         \<and> handleSubmit s = s\<lparr>error := Some (js ''Please enter a prompt.'')\<rparr>
         \<and> calls (handleSubmit s) = calls s
         \<and> inflight (handleSubmit s) = inflight s
         \<and> isLoading (handleSubmit s) = isLoading s
         \<and> generatedImage (handleSubmit s) = generatedImage s"
proof -
  have "error (App_init a) \<noteq> Some (js ''Please enter a prompt.'')"
    by (simp add: App_init_fields)
  then have "error (run evs (App_init a)) \<noteq> Some (js ''Please enter a prompt.'')"
    by (rule no_validation_run)
  with assms show ?thesis
    by (simp add: handleSubmit_empty trim_Nil_iff isGenerateDisabled_def)
qed

theorem empty_prompt_submit_witness:
  "trim (prompt (demo_succeeded\<lparr>prompt := js ''   ''\<rparr>)) = []
   \<and> step ClickGenerate (demo_succeeded\<lparr>prompt := js ''   ''\<rparr>) =
       demo_succeeded\<lparr>prompt := js ''   ''\<rparr>
   \<and> error (handleSubmit (demo_succeeded\<lparr>prompt := js ''   ''\<rparr>)) =
       Some (js ''Please enter a prompt.'')
   \<and> calls (handleSubmit (demo_succeeded\<lparr>prompt := js ''   ''\<rparr>)) =
       [generateMonochromeImage_call demo_ai (js ''cat'')]
   \<and> generatedImage (handleSubmit (demo_succeeded\<lparr>prompt := js ''   ''\<rparr>)) =
       Some (js ''data:image/png;base64,abc'')"
proof -
  have h: "trim (prompt (demo_succeeded\<lparr>prompt := js ''   ''\<rparr>)) = []"
    by (simp add: trim_def isWhiteSpace_def js_def)
  from empty_prompt_submit [OF h]
  have "step ClickGenerate (demo_succeeded\<lparr>prompt := js ''   ''\<rparr>) =
          demo_succeeded\<lparr>prompt := js ''   ''\<rparr>"
    and "handleSubmit (demo_succeeded\<lparr>prompt := js ''   ''\<rparr>) =
          demo_succeeded\<lparr>prompt := js ''   '', error := Some (js ''Please enter a prompt.'')\<rparr>"
    by blast+
  with h show ?thesis by (simp add: demo_succeeded_eq)
qed

text \<open>
  C6, as the specification has it, fails for the submit event on a prompt of three
  spaces: after typing it into the initial component, the click on Generate leaves the
  error unset; the validation message is not stored.
\<close>

theorem empty_prompt_submit_counterexample:
  "trim (prompt (run [Type (js ''   '')] (App_init demo_ai))) = []
   \<and> error (step ClickGenerate (run [Type (js ''   '')] (App_init demo_ai))) = None
   \<and> error (step ClickGenerate (run [Type (js ''   '')] (App_init demo_ai)))
       \<noteq> Some (js ''Please enter a prompt.'')"
  by (simp add: run_def App_init_fields isGenerateDisabled_def trim_def isWhiteSpace_def js_def)

text \<open>
  C10. For every submit with a prompt that is not empty after trimming, the one provider
  call issued carries the prompt as typed, white space included, followed by the style
  suffix; when trimming changes the prompt, the text sent is not the trimmed prompt with
  the suffix. The name of a download and the disabling of the Generate button (like the
  validation in \<open>handleSubmit\<close>) depend on the trimmed prompt only.
\<close>

theorem untrimmed_prompt_dispatched:
  assumes "trim (prompt s) \<noteq> []"
  shows "calls (handleSubmit s) = calls s @
           [\<lparr>client = ai s,
             args = \<lparr>model = js ''gemini-2.5-flash-image'',
                     contents = [prompt s @ STYLE_SUFFIX],
                     responseModalities = [IMAGE]\<rparr>\<rparr>]
         \<and> (prompt s \<noteq> trim (prompt s) \<longrightarrow>
              contents (args (last (calls (handleSubmit s)))) \<noteq> [trim (prompt s) @ STYLE_SUFFIX])
         \<and> download_name U (prompt s) = download_name U (trim (prompt s))
         \<and> isGenerateDisabled s = isGenerateDisabled (s\<lparr>prompt := trim (prompt s)\<rparr>)"
  using assms
  by (simp add: handleSubmit_fields generateMonochromeImage_call_def fullPrompt_def
      download_name_trim isGenerateDisabled_def trim_idem)

theorem untrimmed_prompt_dispatched_witness:
  "trim (prompt ((App_init demo_ai)\<lparr>prompt := js ''  cat ''\<rparr>)) = js ''cat''
   \<and> prompt ((App_init demo_ai)\<lparr>prompt := js ''  cat ''\<rparr>) \<noteq> js ''cat''
   \<and> calls (handleSubmit ((App_init demo_ai)\<lparr>prompt := js ''  cat ''\<rparr>)) =
       [\<lparr>client = demo_ai,
         args = \<lparr>model = js ''gemini-2.5-flash-image'',
                 contents = [js ''  cat '' @ STYLE_SUFFIX],
                 responseModalities = [IMAGE]\<rparr>\<rparr>]
   \<and> contents (args (last (calls (handleSubmit ((App_init demo_ai)\<lparr>prompt := js ''  cat ''\<rparr>)))))
       \<noteq> [js ''cat'' @ STYLE_SUFFIX]
   \<and> download_name no_case_mapping (js ''  cat '') = js ''cat.png''"
proof -
  have t: "trim (prompt ((App_init demo_ai)\<lparr>prompt := js ''  cat ''\<rparr>)) = js ''cat''"
    by (simp add: trim_def isWhiteSpace_def js_def)
  then have h: "trim (prompt ((App_init demo_ai)\<lparr>prompt := js ''  cat ''\<rparr>)) \<noteq> []"
    by (simp add: cat_nonempty)
  have d: "prompt ((App_init demo_ai)\<lparr>prompt := js ''  cat ''\<rparr>) \<noteq> js ''cat''"
    by (simp add: js_def)
  have n: "download_name no_case_mapping (js ''cat'') = js ''cat.png''"
    by (simp add: string_eval)
  from untrimmed_prompt_dispatched [OF h, of no_case_mapping] t d n show ?thesis
    by (simp add: App_init_fields)
qed

end
